theory Spec2Isabelle
  imports Complex_Main
begin

section \<open>Data model\<close>

text \<open>
  The scoring and alerting services of CredSentinal
  (\<^verbatim>\<open>backend/app/services/scoring_service.py\<close>, \<^verbatim>\<open>alert_service.py\<close>) compute on
  SQLAlchemy rows. A row is a record here, a nullable column an \<open>option\<close>. Python
  floats are modelled as reals and decimal literals as the exact rationals they
  denote, so the development speaks about the arithmetic the code intends and not
  about binary rounding. The SQLAlchemy session is the persistence collaborator:
  \<^verbatim>\<open>db.add\<close> and \<^verbatim>\<open>db.commit\<close> are updates of an in-memory table that always
  succeed, so the handlers that only catch a failure of the session have no branch
  here. Every other exception the Python can raise is a branch of the model.
\<close>

text \<open>\<^verbatim>\<open>models/financial_data.py\<close>: the columns the scoring service reads.\<close>

record financial_data =
  debt_to_equity :: "real option"
  current_ratio :: "real option"
  return_on_equity :: "real option"
  revenue_growth :: "real option"
  price_volatility :: "real option"
  beta :: "real option"
  market_cap :: "real option"

text \<open>
  \<^verbatim>\<open>models/news_event.py\<close>. The news service always stores a sentiment score, a
  risk score, a headline and a publication time; the event type is \<^verbatim>\<open>None\<close> when
  no keyword matched.
\<close>

record news_event =
  headline :: string
  url :: "string option"
  published_at :: int
  sentiment_score :: real
  event_type :: "string option"
  risk_score :: real

text \<open>
  \<^verbatim>\<open>models/alert.py\<close>. The rendered message and the JSON payloads are left out
  (they format floats as text); every other column is here, the column
  \<^verbatim>\<open>score_change\<close> under the name \<open>alert_score_change\<close> (a credit score has
  a column of that name too). Times are integers.
\<close>

record alert =
  company_id :: nat
  alert_type :: string
  severity :: string
  title :: string
  alert_score_change :: "real option"
  previous_score :: "real option"
  current_score :: "real option"
  change_percentage :: "real option"
  trigger_value :: "real option"
  threshold_value :: "real option"
  is_read :: bool
  is_acknowledged :: bool
  acknowledged_by :: "string option"
  acknowledged_at :: "int option"

text \<open>The alerts table: rows by primary key, and the next key the table hands out.\<close>

record alert_db =
  alerts :: "nat \<rightharpoonup> alert"
  next_alert_id :: nat

definition db_add :: "alert_db \<Rightarrow> alert \<Rightarrow> alert_db" where
  "db_add db a =
     db\<lparr>alerts := (alerts db)(next_alert_id db \<mapsto> a),
        next_alert_id := Suc (next_alert_id db)\<rparr>"

text \<open>\<^verbatim>\<open>core/config.py\<close>: the settings the two services read, with their defaults.\<close>

record settings =
  financial_weight :: real
  market_weight :: real
  news_weight :: real
  score_change_threshold :: real

definition default_settings :: settings where
  "default_settings =
     \<lparr>financial_weight = 0.4, market_weight = 0.3, news_weight = 0.3,
      score_change_threshold = 20.0\<rparr>"

section \<open>Financial sub-score\<close>

text \<open>
  \<^verbatim>\<open>ScoringService._calculate_financial_score\<close>. The running \<^verbatim>\<open>score\<close> is
  threaded through the four blocks in source order; a column that is \<^verbatim>\<open>None\<close>
  skips its block.
\<close>

definition calculate_financial_score :: "financial_data \<Rightarrow> real" where
  "calculate_financial_score fd =
     (let score = 50.0;
          score = (case debt_to_equity fd of
                     None \<Rightarrow> score
                   | Some d \<Rightarrow>
                       if d \<le> 0.5 then score + 20
                       else if d \<le> 1.0 then score + 10
                       else if d \<le> 2.0 then score - 10
                       else score - 20);
          score = (case current_ratio fd of
                     None \<Rightarrow> score
                   | Some c \<Rightarrow>
                       if c \<ge> 2.0 then score + 15
                       else if c \<ge> 1.5 then score + 10
                       else if c \<ge> 1.0 then score + 5
                       else score - 15);
          score = (case return_on_equity fd of
                     None \<Rightarrow> score
                   | Some r \<Rightarrow>
                       if r \<ge> 0.15 then score + 15
                       else if r \<ge> 0.10 then score + 10
                       else if r \<ge> 0.05 then score + 5
                       else score - 10);
          score = (case revenue_growth fd of
                     None \<Rightarrow> score
                   | Some g \<Rightarrow>
                       if g \<ge> 0.10 then score + 10
                       else if g \<ge> 0.05 then score + 5
                       else if g < 0 then score - 10
                       else score)
      in max 0 (min 100 score))"

text \<open>
  The ladders as the specification words them: one adjustment per metric, nothing
  for a metric that is missing.
\<close>

definition debt_to_equity_adjustment :: "real option \<Rightarrow> real" where
  "debt_to_equity_adjustment m =
     (case m of None \<Rightarrow> 0
      | Some d \<Rightarrow> if d \<le> 0.5 then 20 else if d \<le> 1.0 then 10
                  else if d \<le> 2.0 then - 10 else - 20)"

definition current_ratio_adjustment :: "real option \<Rightarrow> real" where
  "current_ratio_adjustment m =
     (case m of None \<Rightarrow> 0
      | Some c \<Rightarrow> if c \<ge> 2.0 then 15 else if c \<ge> 1.5 then 10
                  else if c \<ge> 1.0 then 5 else - 15)"

definition return_on_equity_adjustment :: "real option \<Rightarrow> real" where
  "return_on_equity_adjustment m =
     (case m of None \<Rightarrow> 0
      | Some r \<Rightarrow> if r \<ge> 0.15 then 15 else if r \<ge> 0.10 then 10
                  else if r \<ge> 0.05 then 5 else - 10)"

definition revenue_growth_adjustment :: "real option \<Rightarrow> real" where
  "revenue_growth_adjustment m =
     (case m of None \<Rightarrow> 0
      | Some g \<Rightarrow> if g \<ge> 0.10 then 10 else if g \<ge> 0.05 then 5
                  else if g < 0 then - 10 else 0)"

definition spec_financial_score :: "financial_data \<Rightarrow> real" where
  "spec_financial_score fd =
     max 0 (min 100
       (50 + debt_to_equity_adjustment (debt_to_equity fd)
           + current_ratio_adjustment (current_ratio fd)
           + return_on_equity_adjustment (return_on_equity fd)
           + revenue_growth_adjustment (revenue_growth fd)))"

text \<open>Scenario A of the specification; the market columns are not read here.\<close>

definition scenario_A :: financial_data where
  "scenario_A =
     \<lparr>debt_to_equity = Some 0.4, current_ratio = Some 2.5,
      return_on_equity = Some 0.18, revenue_growth = Some 0.12,
      price_volatility = None, beta = None, market_cap = None\<rparr>"

section \<open>Score-change alerts\<close>

text \<open>
  \<^verbatim>\<open>AlertService.create_score_change_alert\<close>. The division is guarded by
  \<^verbatim>\<open>previous_score > 0\<close>, and nothing else before \<^verbatim>\<open>db.add\<close> can raise on
  floats. The result is the table and what the method returns.
\<close>

definition create_score_change_alert ::
  "settings \<Rightarrow> alert_db \<Rightarrow> nat \<Rightarrow> real \<Rightarrow> real \<Rightarrow> alert_db \<times> alert option" where
  "create_score_change_alert cfg db cid prev cur =
     (let change = cur - prev;
          pct = (if prev > 0 then (change / prev) * 100 else 0)
      in if \<bar>change\<bar> < score_change_threshold cfg then (db, None)
         else
           let sev = (if \<bar>change\<bar> \<ge> 30 then ''critical''
                      else if \<bar>change\<bar> \<ge> 20 then ''high''
                      else if \<bar>change\<bar> \<ge> 10 then ''medium''
                      else ''low'');
               a = \<lparr>company_id = cid, alert_type = ''score_change'', severity = sev,
                    title = ''Credit Score Change Alert'',
                    alert_score_change = Some change, previous_score = Some prev,
                    current_score = Some cur, change_percentage = Some pct,
                    trigger_value = Some change,
                    threshold_value = Some (score_change_threshold cfg),
                    is_read = False, is_acknowledged = False,
                    acknowledged_by = None, acknowledged_at = None\<rparr>
           in (db_add db a, Some a))"

text \<open>The severity ladder of the specification, on the absolute delta.\<close>

definition severity_ladder :: "real \<Rightarrow> string" where
  "severity_ladder m =
     (if m \<ge> 30 then ''critical'' else if m \<ge> 20 then ''high''
      else if m \<ge> 10 then ''medium'' else ''low'')"

section \<open>News alerts\<close>

text \<open>\<^verbatim>\<open>AlertService._is_high_risk_news\<close>. \<^verbatim>\<open>None in [...]\<close> is \<^verbatim>\<open>False\<close>.\<close>

definition is_high_risk_news :: "news_event \<Rightarrow> bool" where
  "is_high_risk_news ev =
     (let high_risk_events = [''default'', ''legal'', ''restructuring''];
          high_risk_sentiment = (sentiment_score ev < - 0.5);
          high_risk_score = (risk_score ev > 0.7)
      in (case event_type ev of None \<Rightarrow> False | Some t \<Rightarrow> t \<in> set high_risk_events)
         \<or> high_risk_sentiment \<or> high_risk_score)"

text \<open>\<^verbatim>\<open>AlertService._determine_news_severity\<close>.\<close>

definition determine_news_severity :: "news_event \<Rightarrow> string" where
  "determine_news_severity ev =
     (if event_type ev = Some ''default'' then ''critical''
      else if (case event_type ev of None \<Rightarrow> False
               | Some t \<Rightarrow> t \<in> set [''legal'', ''restructuring'']) then ''high''
      else if sentiment_score ev < - 0.7 then ''high''
      else if sentiment_score ev < - 0.3 then ''medium''
      else ''low'')"

text \<open>
  Python's \<^verbatim>\<open>str.title()\<close> on ASCII text: a letter that follows a letter is
  lowered, a letter that does not is raised, anything else is kept.
\<close>

definition is_ascii_upper :: "char \<Rightarrow> bool" where
  "is_ascii_upper c = (65 \<le> (of_char c :: nat) \<and> (of_char c :: nat) \<le> 90)"

definition is_ascii_lower :: "char \<Rightarrow> bool" where
  "is_ascii_lower c = (97 \<le> (of_char c :: nat) \<and> (of_char c :: nat) \<le> 122)"

definition ascii_upper :: "char \<Rightarrow> char" where
  "ascii_upper c = (if is_ascii_lower c then char_of ((of_char c :: nat) - 32) else c)"

definition ascii_lower :: "char \<Rightarrow> char" where
  "ascii_lower c = (if is_ascii_upper c then char_of ((of_char c :: nat) + 32) else c)"

primrec title_from :: "bool \<Rightarrow> string \<Rightarrow> string" where
  "title_from prev_cased [] = []"
| "title_from prev_cased (c # cs) =
     (if is_ascii_upper c \<or> is_ascii_lower c
      then (if prev_cased then ascii_lower c else ascii_upper c) # title_from True cs
      else c # title_from False cs)"

definition str_title :: "string \<Rightarrow> string" where
  "str_title s = title_from False s"

text \<open>The exceptions the modelled code can raise.\<close>

datatype py_error = AttributeError

text \<open>
  The title of a news alert, \<^verbatim>\<open>f"High-Risk News Alert: {news_event.event_type.title()}"\<close>:
  on an event type that is \<^verbatim>\<open>None\<close> the attribute lookup raises.
\<close>

definition news_alert_title :: "news_event \<Rightarrow> py_error + string" where
  "news_alert_title ev =
     (case event_type ev of
        None \<Rightarrow> Inl AttributeError
      | Some t \<Rightarrow> Inr (''High-Risk News Alert: '' @ str_title t))"

text \<open>
  \<^verbatim>\<open>AlertService.create_news_alert\<close>. The title is computed while the
  \<^verbatim>\<open>Alert\<close> is built, inside the \<^verbatim>\<open>try\<close>; the handler rolls back and returns
  \<^verbatim>\<open>None\<close>, so an exception there leaves the table as it was.
\<close>

definition create_news_alert ::
  "alert_db \<Rightarrow> nat \<Rightarrow> news_event \<Rightarrow> alert_db \<times> alert option" where
  "create_news_alert db cid ev =
     (if \<not> is_high_risk_news ev then (db, None)
      else
        let sev = determine_news_severity ev
        in case news_alert_title ev of
             Inl e \<Rightarrow> (db, None)
           | Inr t \<Rightarrow>
               let a = \<lparr>company_id = cid, alert_type = ''news_event'', severity = sev,
                        title = t,
                        alert_score_change = None, previous_score = None,
                        current_score = None, change_percentage = None,
                        trigger_value = Some (risk_score ev),
                        threshold_value = Some 0.7,
                        is_read = False, is_acknowledged = False,
                        acknowledged_by = None, acknowledged_at = None\<rparr>
               in (db_add db a, Some a))"

text \<open>
  A signal the news service produces for a headline with strongly negative
  sentiment and no keyword: no event type, risk score 0.4.
\<close>

definition untyped_negative_news :: news_event where
  "untyped_negative_news =
     \<lparr>headline = ''Shares plunge after profit warning'', url = None, published_at = 0,
      sentiment_score = - 0.9, event_type = None, risk_score = 0.4\<rparr>"

definition default_news :: news_event where
  "default_news =
     \<lparr>headline = ''Company files for bankruptcy'', url = None, published_at = 0,
      sentiment_score = 0.5, event_type = Some ''default'', risk_score = 0.4\<rparr>"

section \<open>Alert state: read and acknowledge\<close>

text \<open>
  \<^verbatim>\<open>AlertService.mark_alert_read\<close> and \<^verbatim>\<open>acknowledge_alert\<close>: the row is looked
  up by primary key, an unknown key returns \<^verbatim>\<open>False\<close> and changes nothing.
  \<open>now\<close> is the reading of \<^verbatim>\<open>datetime.now()\<close>.
\<close>

definition mark_alert_read :: "alert_db \<Rightarrow> nat \<Rightarrow> alert_db \<times> bool" where
  "mark_alert_read db alert_id =
     (case alerts db alert_id of
        None \<Rightarrow> (db, False)
      | Some a \<Rightarrow> (db\<lparr>alerts := (alerts db)(alert_id \<mapsto> a\<lparr>is_read := True\<rparr>)\<rparr>, True))"

definition acknowledge_alert :: "alert_db \<Rightarrow> nat \<Rightarrow> string \<Rightarrow> int \<Rightarrow> alert_db \<times> bool" where
  "acknowledge_alert db alert_id by now =
     (case alerts db alert_id of
        None \<Rightarrow> (db, False)
      | Some a \<Rightarrow>
          (db\<lparr>alerts := (alerts db)(alert_id \<mapsto>
                a\<lparr>is_acknowledged := True, acknowledged_by := Some by,
                  acknowledged_at := Some now\<rparr>)\<rparr>, True))"

text \<open>A table holding one fresh score-change alert under key 1.\<close>

definition fresh_alert :: alert where
  "fresh_alert =
     \<lparr>company_id = 7, alert_type = ''score_change'', severity = ''high'',
      title = ''Credit Score Change Alert'',
      alert_score_change = Some (- 25), previous_score = Some 70,
      current_score = Some 45, change_percentage = Some (- 250 / 7),
      trigger_value = Some (- 25), threshold_value = Some 20,
      is_read = False, is_acknowledged = False,
      acknowledged_by = None, acknowledged_at = None\<rparr>"

definition one_alert_db :: alert_db where
  "one_alert_db = \<lparr>alerts = [1 \<mapsto> fresh_alert], next_alert_id = 2\<rparr>"

section \<open>Market and news sub-scores\<close>

text \<open>\<^verbatim>\<open>ScoringService._calculate_market_score\<close>.\<close>

definition calculate_market_score :: "financial_data \<Rightarrow> real" where
  "calculate_market_score fd =
     (let score = 50.0;
          score = (case price_volatility fd of
                     None \<Rightarrow> score
                   | Some v \<Rightarrow>
                       if v \<le> 0.2 then score + 20
                       else if v \<le> 0.3 then score + 10
                       else if v \<le> 0.4 then score + 5
                       else score - 10);
          score = (case beta fd of
                     None \<Rightarrow> score
                   | Some b \<Rightarrow>
                       if b \<le> 0.8 then score + 15
                       else if b \<le> 1.2 then score + 10
                       else if b \<le> 1.5 then score + 5
                       else score - 10);
          score = (case market_cap fd of
                     None \<Rightarrow> score
                   | Some m \<Rightarrow>
                       if m \<ge> 10000 then score + 15
                       else if m \<ge> 1000 then score + 10
                       else if m \<ge> 100 then score + 5
                       else score - 5)
      in max 0 (min 100 score))"

text \<open>Membership of an event type in \<^verbatim>\<open>['default', 'legal', 'restructuring']\<close>.\<close>

definition in_high_risk_events :: "news_event \<Rightarrow> bool" where
  "in_high_risk_events e =
     (case event_type e of
        None \<Rightarrow> False
      | Some t \<Rightarrow> t \<in> set [''default'', ''legal'', ''restructuring''])"

text \<open>
  The loop of \<^verbatim>\<open>_calculate_news_score\<close> that accumulates \<^verbatim>\<open>risk_penalty\<close>: per
  article, 10 for a high-risk event type, \<^verbatim>\<open>elif\<close> 5 for a risk score above 0.7.
\<close>

primrec risk_penalty_loop :: "news_event list \<Rightarrow> real \<Rightarrow> real" where
  "risk_penalty_loop [] risk_penalty = risk_penalty"
| "risk_penalty_loop (e # es) risk_penalty =
     risk_penalty_loop es
       (if in_high_risk_events e then risk_penalty + 10
        else if risk_score e > 0.7 then risk_penalty + 5
        else risk_penalty)"

text \<open>\<^verbatim>\<open>ScoringService._calculate_news_score\<close>.\<close>

definition calculate_news_score :: "news_event list \<Rightarrow> real" where
  "calculate_news_score news_events =
     (if news_events = [] then 50.0
      else
        let score = 50.0;
            sentiment_scores = map sentiment_score news_events;
            avg_sentiment = sum_list sentiment_scores / real (length sentiment_scores);
            sentiment_contribution = avg_sentiment * 30;
            score = score + sentiment_contribution;
            risk_penalty = risk_penalty_loop news_events 0;
            score = score - min risk_penalty 20
        in max 0 (min 100 score))"

text \<open>
  The penalty as the specification words it: 10 points per high-risk event type
  present and 5 points per article with a risk score above 0.7, capped at 20.
  ``Per event type present'' is read once per distinct type and once per article
  of such a type; both readings are given.
\<close>

definition high_risk_types_present :: "news_event list \<Rightarrow> string list" where
  "high_risk_types_present evs =
     filter (\<lambda>t. Some t \<in> set (map event_type evs)) [''default'', ''legal'', ''restructuring'']"

definition spec_news_penalty_per_type :: "news_event list \<Rightarrow> real" where
  "spec_news_penalty_per_type evs =
     min 20 (10 * real (length (high_risk_types_present evs))
             + 5 * real (length (filter (\<lambda>e. risk_score e > 0.7) evs)))"

definition spec_news_penalty_per_article :: "news_event list \<Rightarrow> real" where
  "spec_news_penalty_per_article evs =
     min 20 (10 * real (length (filter in_high_risk_events evs))
             + 5 * real (length (filter (\<lambda>e. risk_score e > 0.7) evs)))"

definition spec_news_score :: "(news_event list \<Rightarrow> real) \<Rightarrow> news_event list \<Rightarrow> real" where
  "spec_news_score penalty evs =
     (if evs = [] then 50
      else max 0 (min 100
             (50 + (sum_list (map sentiment_score evs) / real (length evs)) * 30
                 - penalty evs)))"

text \<open>
  What the loop computes: every article counts once, with 10 points if its event
  type is high-risk and otherwise 5 points if its risk score is above 0.7.
\<close>

definition news_penalty :: "news_event list \<Rightarrow> real" where
  "news_penalty evs =
     min 20 (10 * real (length (filter in_high_risk_events evs))
             + 5 * real (length (filter (\<lambda>e. \<not> in_high_risk_events e \<and> risk_score e > 0.7) evs)))"

text \<open>
  A default event with negative sentiment, as the news service scores it:
  risk 0.4 for the sentiment plus 0.4 for the event type.
\<close>

definition negative_default_news :: news_event where
  "negative_default_news =
     \<lparr>headline = ''Company defaults on bond payment'', url = None, published_at = 0,
      sentiment_score = - 0.5, event_type = Some ''default'', risk_score = 0.8\<rparr>"

section \<open>Credit scores and the scoring pipeline\<close>

text \<open>
  The texts a score carries are kept as the template chosen and the values it
  renders, not as the rendered digits: a key factor is one of the six f-strings
  of \<^verbatim>\<open>_generate_explanation\<close> with its argument, the summary one of its
  three templates. The sixth key factor renders \<^verbatim>\<open>', '.join(set([...]))\<close>; its
  argument is the joined text, whose order is the order in which the interpreter
  iterates the set.
\<close>

datatype key_factor =
    High_debt_to_equity real
  | Low_current_ratio real
  | Low_return_on_equity real
  | High_price_volatility real
  | Negative_sentiment_articles nat
  | High_risk_events_detected string

datatype summary =
    Improved string real
  | Decreased string real "key_factor list"
  | Remained_stable string

text \<open>
  \<^verbatim>\<open>models/credit_score.py\<close>, the columns \<^verbatim>\<open>_save_credit_score\<close> sets. The
  company key is \<open>score_company_id\<close> (an alert has a \<open>company_id\<close> too); the
  feature importance dictionary is its items in insertion order.
\<close>

record credit_score =
  score_company_id :: nat
  overall_score :: real
  financial_score :: real
  market_score :: real
  news_score :: real
  score_change :: real
  trend_direction :: string
  volatility :: real
  explanation_summary :: summary
  key_factors :: "key_factor list"
  risk_indicators :: "string list"
  feature_importance :: "(string \<times> real) list"
  model_version :: string
  calculation_method :: string
  confidence_level :: real
  calculated_at :: int
  valid_until :: int

text \<open>
  What the queries of the scoring service return for one ticker: the key of the
  active company with that ticker (if there is one), its newest financial row, its
  news of the last seven days, and its credit scores ordered by
  \<^verbatim>\<open>calculated_at\<close>, newest first.
\<close>

record scoring_db =
  company :: "nat option"
  latest_financial :: "financial_data option"
  recent_news :: "news_event list"
  scores :: "credit_score list"

definition get_latest_financial_data :: "scoring_db \<Rightarrow> financial_data option" where
  "get_latest_financial_data db =
     (case company db of None \<Rightarrow> None | Some c \<Rightarrow> latest_financial db)"

definition get_latest_news_data :: "scoring_db \<Rightarrow> news_event list" where
  "get_latest_news_data db =
     (case company db of None \<Rightarrow> [] | Some c \<Rightarrow> recent_news db)"

text \<open>
  \<^verbatim>\<open>ScoringService._get_previous_score\<close>: the query is ordered newest first and
  then \<^verbatim>\<open>.offset(1).first()\<close>, so it skips the newest stored score.
\<close>

definition get_previous_score :: "scoring_db \<Rightarrow> real option" where
  "get_previous_score db =
     (case company db of
        None \<Rightarrow> None
      | Some c \<Rightarrow>
          (case drop 1 (scores db) of
             [] \<Rightarrow> None
           | row # rest \<Rightarrow> Some (overall_score row)))"

text \<open>\<^verbatim>\<open>ScoringService._determine_trend_direction\<close>.\<close>

definition determine_trend_direction :: "real \<Rightarrow> string" where
  "determine_trend_direction change =
     (if change > 5 then ''increasing''
      else if change < - 5 then ''decreasing''
      else ''stable'')"

text \<open>
  \<^verbatim>\<open>numpy.std\<close> with its defaults: the square root of the mean of the squared
  absolute deviations from the mean (divisor \<open>n\<close>).
\<close>

definition np_mean :: "real list \<Rightarrow> real" where
  "np_mean xs = sum_list xs / real (length xs)"

definition np_std :: "real list \<Rightarrow> real" where
  "np_std xs = sqrt (np_mean (map (\<lambda>x. \<bar>x - np_mean xs\<bar> ^ 2) xs))"

text \<open>\<^verbatim>\<open>ScoringService._calculate_volatility\<close>.\<close>

definition calculate_volatility :: "scoring_db \<Rightarrow> real" where
  "calculate_volatility db =
     (case company db of
        None \<Rightarrow> 0.0
      | Some c \<Rightarrow>
          let last_scores = take 10 (scores db)
          in if length last_scores < 2 then 0.0
             else let score_values = map overall_score last_scores
                  in np_std score_values)"

text \<open>
  The sample standard deviation of the specification (divisor \<open>n - 1\<close>), and the
  volatility it words.
\<close>

definition sample_std :: "real list \<Rightarrow> real" where
  "sample_std xs =
     sqrt (sum_list (map (\<lambda>x. (x - np_mean xs) ^ 2) xs) / real (length xs - 1))"

definition spec_volatility :: "real list \<Rightarrow> real" where
  "spec_volatility history =
     (let xs = take 10 history in if length xs < 2 then 0 else sample_std xs)"

text \<open>\<^verbatim>\<open>sep.join(xs)\<close>.\<close>

definition str_join :: "string \<Rightarrow> string list \<Rightarrow> string" where
  "str_join sep xs =
     (case xs of [] \<Rightarrow> [] | x # rest \<Rightarrow> x @ concat (map (\<lambda>y. sep @ y) rest))"

text \<open>
  The order in which a Python process iterates \<^verbatim>\<open>set(xs)\<close> for a list of
  strings: each distinct element once, in an order fixed by the string hash seed
  of the process (\<^verbatim>\<open>PYTHONHASHSEED\<close>, random by default). It is an input of a
  run, like the clock. The two orders below list the set of \<open>default\<close> and
  \<open>legal\<close> as default, legal and as legal, default; CPython does either,
  depending on the seed.
\<close>

type_synonym set_iteration = "string list \<Rightarrow> string list"

definition iteration_order_A :: set_iteration where
  "iteration_order_A xs = remdups xs"

definition iteration_order_B :: set_iteration where
  "iteration_order_B xs = rev (remdups xs)"

text \<open>
  Python's \<^verbatim>\<open>x and x > c\<close> on a nullable float: \<^verbatim>\<open>None\<close> and \<^verbatim>\<open>0.0\<close> are
  falsy.
\<close>

definition truthy_and :: "real option \<Rightarrow> (real \<Rightarrow> bool) \<Rightarrow> bool" where
  "truthy_and m P = (case m of None \<Rightarrow> False | Some v \<Rightarrow> v \<noteq> 0 \<and> P v)"

text \<open>
  One detection block of \<^verbatim>\<open>_generate_explanation\<close>: when the condition holds,
  \<^verbatim>\<open>key_factors.append(...)\<close> and \<^verbatim>\<open>risk_indicators.append(...)\<close>.
\<close>

definition add_factor ::
  "bool \<Rightarrow> key_factor \<Rightarrow> string \<Rightarrow> key_factor list \<times> string list
     \<Rightarrow> key_factor list \<times> string list" where
  "add_factor cond factor tag acc =
     (if cond then (fst acc @ [factor], snd acc @ [tag]) else acc)"

text \<open>
  \<^verbatim>\<open>ScoringService._generate_explanation\<close>; of its arguments only the ticker, the
  financial row, the news and the score change are read; \<open>set_order\<close> is the
  iteration order of the process. The pair \<open>acc\<close> is the two lists
  \<^verbatim>\<open>key_factors\<close> and \<^verbatim>\<open>risk_indicators\<close>.
\<close>

definition generate_explanation ::
  "set_iteration \<Rightarrow> string \<Rightarrow> financial_data \<Rightarrow> news_event list \<Rightarrow> real
     \<Rightarrow> summary \<times> key_factor list \<times> string list" where
  "generate_explanation set_order ticker fd news_events change =
     (let acc = ([], []);
          acc = add_factor (truthy_and (debt_to_equity fd) (\<lambda>v. v > 1.0))
                  (High_debt_to_equity (the (debt_to_equity fd))) ''high_leverage'' acc;
          acc = add_factor (truthy_and (current_ratio fd) (\<lambda>v. v < 1.5))
                  (Low_current_ratio (the (current_ratio fd))) ''liquidity_concerns'' acc;
          acc = add_factor (truthy_and (return_on_equity fd) (\<lambda>v. v < 0.05))
                  (Low_return_on_equity (the (return_on_equity fd))) ''poor_profitability'' acc;
          acc = add_factor (truthy_and (price_volatility fd) (\<lambda>v. v > 0.4))
                  (High_price_volatility (the (price_volatility fd))) ''market_volatility'' acc;
          acc =
             (if news_events \<noteq> [] then
                let negative_news = filter (\<lambda>e. sentiment_score e < - 0.3) news_events;
                    acc = add_factor (negative_news \<noteq> [])
                            (Negative_sentiment_articles (length negative_news))
                            ''negative_news_sentiment'' acc;
                    high_risk_events = filter in_high_risk_events news_events
                in add_factor (high_risk_events \<noteq> [])
                     (High_risk_events_detected
                        (str_join '', ''
                           (set_order (map (\<lambda>e. the (event_type e)) high_risk_events))))
                     ''high_risk_events'' acc
              else acc);
          kf = fst acc;
          ri = snd acc;
          summary = (if change > 0 then Improved ticker change
                     else if change < 0 then Decreased ticker \<bar>change\<bar> (take 2 kf)
                     else Remained_stable ticker)
      in (summary, kf, ri))"

text \<open>\<^verbatim>\<open>ScoringService._calculate_feature_importance\<close>.\<close>

definition calculate_feature_importance ::
  "financial_data \<Rightarrow> news_event list \<Rightarrow> (string \<times> real) list" where
  "calculate_feature_importance fd news_events =
     (let importance = [];
          importance = (case debt_to_equity fd of None \<Rightarrow> importance
                        | Some v \<Rightarrow> importance @ [(''debt_to_equity'', \<bar>v - 1.0\<bar> * 10)]);
          importance = (case current_ratio fd of None \<Rightarrow> importance
                        | Some v \<Rightarrow> importance @ [(''current_ratio'', \<bar>v - 2.0\<bar> * 5)]);
          importance = (case return_on_equity fd of None \<Rightarrow> importance
                        | Some v \<Rightarrow> importance @ [(''return_on_equity'', \<bar>v - 0.15\<bar> * 20)]);
          importance = (case price_volatility fd of None \<Rightarrow> importance
                        | Some v \<Rightarrow> importance @ [(''price_volatility'', v * 50)])
      in if news_events \<noteq> [] then
           let avg_sentiment =
                 sum_list (map sentiment_score news_events) / real (length news_events);
               high_risk_count = length (filter in_high_risk_events news_events)
           in importance @ [(''news_sentiment'', \<bar>avg_sentiment\<bar> * 30),
                            (''high_risk_events'', real high_risk_count * 15)]
         else importance)"

text \<open>
  \<^verbatim>\<open>ScoringService._save_credit_score\<close>. It looks the company up again and raises
  \<^verbatim>\<open>ValueError\<close> when there is none. \<^verbatim>\<open>datetime.now()\<close> is read twice, once for
  \<^verbatim>\<open>calculated_at\<close> and once for \<^verbatim>\<open>valid_until\<close>; times are in seconds. The new
  row is the newest, so it goes to the front.
\<close>

datatype save_error = ValueError

definition save_credit_score ::
  "scoring_db \<Rightarrow> real \<Rightarrow> real \<Rightarrow> real \<Rightarrow> real \<Rightarrow> real \<Rightarrow> string \<Rightarrow> real
     \<Rightarrow> summary \<times> key_factor list \<times> string list \<Rightarrow> (string \<times> real) list
     \<Rightarrow> int \<Rightarrow> int \<Rightarrow> save_error + scoring_db \<times> credit_score" where
  "save_credit_score db overall fin mkt news change trend vol explanation_data importance
       now1 now2 =
     (case company db of
        None \<Rightarrow> Inl ValueError
      | Some c \<Rightarrow>
          let row = \<lparr>score_company_id = c, overall_score = overall, financial_score = fin,
                      market_score = mkt, news_score = news, score_change = change,
                      trend_direction = trend, volatility = vol,
                      explanation_summary = fst explanation_data,
                      key_factors = fst (snd explanation_data),
                      risk_indicators = snd (snd explanation_data),
                      feature_importance = importance,
                      model_version = ''1.0'', calculation_method = ''weighted_average'',
                      confidence_level = 0.85,
                      calculated_at = now1, valid_until = now2 + 24 * 3600\<rparr>
          in Inr (db\<lparr>scores := row # scores db\<rparr>, row))"

text \<open>
  \<^verbatim>\<open>ScoringService._compute_score_background\<close>. Without a financial row it
  returns before scoring; an exception of the save is caught and logged. The
  settings, the set iteration order of the process and the two clock readings
  are arguments; the result is the database and the score written, if one was.
\<close>

definition compute_score_background ::
  "settings \<Rightarrow> set_iteration \<Rightarrow> scoring_db \<Rightarrow> string \<Rightarrow> int \<Rightarrow> int
     \<Rightarrow> scoring_db \<times> credit_score option" where
  "compute_score_background cfg set_order db ticker now1 now2 =
     (let financial_data = get_latest_financial_data db;
          news_data = get_latest_news_data db
      in case financial_data of
           None \<Rightarrow> (db, None)
         | Some fd \<Rightarrow>
             let fin = calculate_financial_score fd;
                 mkt = calculate_market_score fd;
                 news = calculate_news_score news_data;
                 overall = financial_weight cfg * fin + market_weight cfg * mkt
                           + news_weight cfg * news;
                 prev = get_previous_score db;
                 change = (case prev of
                             None \<Rightarrow> 0
                           | Some p \<Rightarrow> if p \<noteq> 0 then overall - p else 0);
                 trend = determine_trend_direction change;
                 vol = calculate_volatility db;
                 explanation_data = generate_explanation set_order ticker fd news_data change;
                 importance = calculate_feature_importance fd news_data
             in case save_credit_score db overall fin mkt news change trend vol
                       explanation_data importance now1 now2 of
                  Inl e \<Rightarrow> (db, None)
                | Inr (db', row) \<Rightarrow> (db', Some row))"

text \<open>
  Concrete inputs. \<open>stored_score v\<close> is an earlier row with overall score \<open>v\<close>;
  the company of scenario A has key 7, no news, and the history given.
\<close>

definition stored_score :: "real \<Rightarrow> credit_score" where
  "stored_score v =
     \<lparr>score_company_id = 7, overall_score = v, financial_score = v, market_score = v,
      news_score = v, score_change = 0, trend_direction = ''stable'', volatility = 0,
      explanation_summary = Remained_stable ''ACME'', key_factors = [],
      risk_indicators = [], feature_importance = [],
      model_version = ''1.0'', calculation_method = ''weighted_average'',
      confidence_level = 0.85, calculated_at = 0, valid_until = 24 * 3600\<rparr>"

definition company_with_history :: "real list \<Rightarrow> scoring_db" where
  "company_with_history vs =
     \<lparr>company = Some 7, latest_financial = Some scenario_A, recent_news = [],
      scores = map stored_score vs\<rparr>"

text \<open>
  The same company with two articles of the last week, one of event type default
  and one of event type legal, scored as the news service scores them.
\<close>

definition legal_news :: news_event where
  "legal_news =
     \<lparr>headline = ''Regulator opens investigation'', url = None, published_at = 0,
      sentiment_score = - 0.2, event_type = Some ''legal'', risk_score = 0.6\<rparr>"

definition company_with_news :: scoring_db where
  "company_with_news =
     \<lparr>company = Some 7, latest_financial = Some scenario_A,
      recent_news = [default_news, legal_news], scores = [stored_score 60]\<rparr>"

section \<open>The financial sub-score is the ladder sum, clamped\<close>

lemma debt_to_equity_block:
  "(case m of None \<Rightarrow> s
    | Some d \<Rightarrow> if d \<le> 0.5 then s + 20 else if d \<le> 1.0 then s + 10
                else if d \<le> 2.0 then s - 10 else s - 20)
   = s + debt_to_equity_adjustment m"
  by (simp add: debt_to_equity_adjustment_def split: option.split)

lemma current_ratio_block:
  "(case m of None \<Rightarrow> s
    | Some c \<Rightarrow> if c \<ge> 2.0 then s + 15 else if c \<ge> 1.5 then s + 10
                else if c \<ge> 1.0 then s + 5 else s - 15)
   = s + current_ratio_adjustment m"
  by (simp add: current_ratio_adjustment_def split: option.split)

lemma return_on_equity_block:
  "(case m of None \<Rightarrow> s
    | Some r \<Rightarrow> if r \<ge> 0.15 then s + 15 else if r \<ge> 0.10 then s + 10
                else if r \<ge> 0.05 then s + 5 else s - 10)
   = s + return_on_equity_adjustment m"
  by (simp add: return_on_equity_adjustment_def split: option.split)

lemma revenue_growth_block:
  "(case m of None \<Rightarrow> s
    | Some g \<Rightarrow> if g \<ge> 0.10 then s + 10 else if g \<ge> 0.05 then s + 5
                else if g < 0 then s - 10 else s)
   = s + revenue_growth_adjustment m"
  by (simp add: revenue_growth_adjustment_def split: option.split)

lemma calculate_financial_score_spec:
  "calculate_financial_score fd = spec_financial_score fd"
  unfolding calculate_financial_score_def spec_financial_score_def Let_def
  by (simp only: debt_to_equity_block current_ratio_block return_on_equity_block
      revenue_growth_block)

text \<open>
  Claim C1. For every financial snapshot the financial sub-score is the base 50
  plus the ladder adjustment of each metric that is present, clamped to the range
  from 0 to 100; a missing metric adds nothing and the function is total, so no
  snapshot makes it fail. Scenario A (0.4, 2.5, 0.18, 0.12) scores exactly 100.
\<close>

theorem C1_financial_score:
  "calculate_financial_score fd =
     max 0 (min 100
       (50 + debt_to_equity_adjustment (debt_to_equity fd)
           + current_ratio_adjustment (current_ratio fd)
           + return_on_equity_adjustment (return_on_equity fd)
           + revenue_growth_adjustment (revenue_growth fd)))
   \<and> debt_to_equity_adjustment None = 0
   \<and> current_ratio_adjustment None = 0
   \<and> return_on_equity_adjustment None = 0
   \<and> revenue_growth_adjustment None = 0
   \<and> 0 \<le> calculate_financial_score fd
   \<and> calculate_financial_score fd \<le> 100
   \<and> calculate_financial_score scenario_A = 100"
proof -
  have eq: "calculate_financial_score fd = spec_financial_score fd"
    by (rule calculate_financial_score_spec)
  have lo: "0 \<le> spec_financial_score fd" and hi: "spec_financial_score fd \<le> 100"
    by (simp_all add: spec_financial_score_def)
  have a: "calculate_financial_score scenario_A = 100"
    by (simp add: calculate_financial_score_def scenario_A_def)
  have n1: "debt_to_equity_adjustment None = 0"
    by (simp add: debt_to_equity_adjustment_def)
  have n2: "current_ratio_adjustment None = 0"
    by (simp add: current_ratio_adjustment_def)
  have n3: "return_on_equity_adjustment None = 0"
    by (simp add: return_on_equity_adjustment_def)
  have n4: "revenue_growth_adjustment None = 0"
    by (simp add: revenue_growth_adjustment_def)
  from eq have e: "calculate_financial_score fd =
     max 0 (min 100
       (50 + debt_to_equity_adjustment (debt_to_equity fd)
           + current_ratio_adjustment (current_ratio fd)
           + return_on_equity_adjustment (return_on_equity fd)
           + revenue_growth_adjustment (revenue_growth fd)))"
    by (simp only: spec_financial_score_def)
  from lo hi eq have r: "0 \<le> calculate_financial_score fd"
    "calculate_financial_score fd \<le> 100"
    by simp_all
  from e n1 n2 n3 n4 r a show ?thesis
    by blast
qed

section \<open>Score-change alerts: emission threshold and severity\<close>

lemma score_change_alert_none_iff:
  "snd (create_score_change_alert cfg db cid prev cur) = None
     \<longleftrightarrow> \<bar>cur - prev\<bar> < score_change_threshold cfg"
  by (simp add: create_score_change_alert_def Let_def)

lemma score_change_alert_severity:
  "map_option severity (snd (create_score_change_alert cfg db cid prev cur)) =
     (if \<bar>cur - prev\<bar> < score_change_threshold cfg then None
      else Some (severity_ladder \<bar>cur - prev\<bar>))"
  by (simp add: create_score_change_alert_def Let_def severity_ladder_def)

lemma score_change_alert_type:
  "map_option alert_type (snd (create_score_change_alert cfg db cid prev cur)) =
     (if \<bar>cur - prev\<bar> < score_change_threshold cfg then None
      else Some ''score_change'')"
  by (simp add: create_score_change_alert_def Let_def)

text \<open>
  Claim C2. The score-change path returns no alert exactly when the absolute
  delta is below the configured threshold; an alert it returns has type
  \<open>score_change\<close> and the severity the ladder gives for the absolute delta
  (30 and more critical, 20 and more high, 10 and more medium, else low). With
  the default threshold 20 a delta of 19.99 is suppressed, a delta of exactly 20
  alerts, and the move from 70 to 45 alerts with severity high.
\<close>

theorem C2_score_change_alert:
  "(snd (create_score_change_alert cfg db cid prev cur) = None
      \<longleftrightarrow> \<bar>cur - prev\<bar> < score_change_threshold cfg)
   \<and> map_option severity (snd (create_score_change_alert cfg db cid prev cur)) =
       (if \<bar>cur - prev\<bar> < score_change_threshold cfg then None
        else Some (severity_ladder \<bar>cur - prev\<bar>))
   \<and> map_option alert_type (snd (create_score_change_alert cfg db cid prev cur)) =
       (if \<bar>cur - prev\<bar> < score_change_threshold cfg then None
        else Some ''score_change'')
   \<and> score_change_threshold default_settings = 20
   \<and> snd (create_score_change_alert default_settings db cid 50 69.99) = None
   \<and> snd (create_score_change_alert default_settings db cid 50 70) \<noteq> None
   \<and> map_option severity
         (snd (create_score_change_alert default_settings db cid 70.0 45.0)) = Some ''high''
   \<and> map_option alert_type
         (snd (create_score_change_alert default_settings db cid 70.0 45.0))
       = Some ''score_change''"
proof -
  have thr: "score_change_threshold default_settings = 20"
    by (simp add: default_settings_def)
  have below: "snd (create_score_change_alert default_settings db cid 50 69.99) = None"
    by (simp add: score_change_alert_none_iff thr)
  have at: "snd (create_score_change_alert default_settings db cid 50 70) \<noteq> None"
    by (simp add: score_change_alert_none_iff thr)
  have sev: "map_option severity
      (snd (create_score_change_alert default_settings db cid 70.0 45.0)) = Some ''high''"
    by (simp add: score_change_alert_severity thr severity_ladder_def)
  have ty: "map_option alert_type
      (snd (create_score_change_alert default_settings db cid 70.0 45.0))
      = Some ''score_change''"
    by (simp add: score_change_alert_type thr)
  from score_change_alert_none_iff [of cfg db cid prev cur]
    score_change_alert_severity [of cfg db cid prev cur]
    score_change_alert_type [of cfg db cid prev cur] thr below at sev ty
  show ?thesis by blast
qed

section \<open>News alerts: a high-risk signal with no event type\<close>

lemma is_high_risk_news_iff:
  "is_high_risk_news ev \<longleftrightarrow>
     event_type ev \<in> {Some ''default'', Some ''legal'', Some ''restructuring''}
     \<or> sentiment_score ev < - 0.5 \<or> risk_score ev > 0.7"
  by (auto simp: is_high_risk_news_def Let_def split: option.splits)

lemma create_news_alert_not_high_risk:
  "\<not> is_high_risk_news ev \<Longrightarrow> create_news_alert db cid ev = (db, None)"
  by (simp add: create_news_alert_def)

lemma create_news_alert_typed:
  "is_high_risk_news ev \<Longrightarrow> event_type ev = Some t \<Longrightarrow>
   map_option severity (snd (create_news_alert db cid ev)) = Some (determine_news_severity ev)"
  by (simp add: create_news_alert_def news_alert_title_def Let_def)

lemma create_news_alert_default:
  "event_type ev = Some ''default'' \<Longrightarrow>
   map_option severity (snd (create_news_alert db cid ev)) = Some ''critical''"
  by (simp add: create_news_alert_def news_alert_title_def Let_def
      is_high_risk_news_def determine_news_severity_def)

text \<open>
  Claim C4, at the failing input. The signal \<open>untyped_negative_news\<close> is
  high-risk (sentiment below -0.5) and the severity ladder grades it high, yet
  \<open>create_news_alert\<close> returns no alert and leaves the table untouched: building
  the title calls \<^verbatim>\<open>.title()\<close> on an event type that is \<^verbatim>\<open>None\<close>, and the
  handler turns the exception into \<^verbatim>\<open>None\<close>.
\<close>

theorem C4_untyped_high_risk_news_not_alerted:
  "is_high_risk_news untyped_negative_news
   \<and> determine_news_severity untyped_negative_news = ''high''
   \<and> news_alert_title untyped_negative_news = Inl AttributeError
   \<and> create_news_alert db cid untyped_negative_news = (db, None)"
  by (simp add: is_high_risk_news_def determine_news_severity_def news_alert_title_def
      create_news_alert_def untyped_negative_news_def Let_def)

section \<open>Alert state: what read and acknowledge do on repetition\<close>

lemma mark_alert_read_twice:
  "fst (mark_alert_read (fst (mark_alert_read db i)) i) = fst (mark_alert_read db i)"
  by (cases "alerts db i") (simp_all add: mark_alert_read_def)

lemma acknowledge_alert_twice:
  "fst (acknowledge_alert (fst (acknowledge_alert db i b1 t1)) i b2 t2)
     = fst (acknowledge_alert db i b2 t2)"
  by (cases "alerts db i") (simp_all add: acknowledge_alert_def)

lemma acknowledge_alert_row:
  "alerts (fst (acknowledge_alert db i b t)) i =
     map_option (\<lambda>a. a\<lparr>is_acknowledged := True, acknowledged_by := Some b,
                        acknowledged_at := Some t\<rparr>) (alerts db i)"
  by (cases "alerts db i") (simp_all add: acknowledge_alert_def)

text \<open>
  Claim C7 as stated fails: after \<open>alice\<close> has acknowledged the alert at time
  100, a further acknowledgement by \<open>bob\<close> at time 200 replaces both the
  recorded acknowledger and the acknowledgement time.
\<close>

theorem C7_second_acknowledge_overwrites:
  "map_option acknowledged_by
     (alerts (fst (acknowledge_alert one_alert_db 1 ''alice'' 100)) 1) = Some (Some ''alice'')
   \<and> map_option acknowledged_at
     (alerts (fst (acknowledge_alert one_alert_db 1 ''alice'' 100)) 1) = Some (Some 100)
   \<and> map_option acknowledged_by
     (alerts (fst (acknowledge_alert
        (fst (acknowledge_alert one_alert_db 1 ''alice'' 100)) 1 ''bob'' 200)) 1)
       = Some (Some ''bob'')
   \<and> map_option acknowledged_at
     (alerts (fst (acknowledge_alert
        (fst (acknowledge_alert one_alert_db 1 ''alice'' 100)) 1 ''bob'' 200)) 1)
       = Some (Some 200)
   \<and> fst (acknowledge_alert (fst (acknowledge_alert one_alert_db 1 ''alice'' 100)) 1 ''bob'' 200)
       \<noteq> fst (acknowledge_alert one_alert_db 1 ''alice'' 100)"
proof -
  let ?d1 = "fst (acknowledge_alert one_alert_db 1 ''alice'' 100)"
  let ?d2 = "fst (acknowledge_alert ?d1 1 ''bob'' 200)"
  have r1: "alerts ?d1 1 = Some (fresh_alert\<lparr>is_acknowledged := True,
      acknowledged_by := Some ''alice'', acknowledged_at := Some 100\<rparr>)"
    by (simp add: acknowledge_alert_row one_alert_db_def)
  have r2: "alerts ?d2 1 = Some (fresh_alert\<lparr>is_acknowledged := True,
      acknowledged_by := Some ''bob'', acknowledged_at := Some 200\<rparr>)"
    by (simp add: acknowledge_alert_twice acknowledge_alert_row one_alert_db_def)
  have ne: "?d2 \<noteq> ?d1"
  proof
    assume "?d2 = ?d1"
    then have "map_option acknowledged_by (alerts ?d2 1)
        = map_option acknowledged_by (alerts ?d1 1)" by simp
    then show False unfolding r1 r2 by simp
  qed
  show ?thesis using r1 r2 ne by simp
qed

text \<open>
  Claim C7, amended. Marking an alert read twice leaves the table as after the
  first call. Acknowledging is last-writer-wins: two acknowledgements leave the
  table as the second one alone would, so the alert stays acknowledged and the
  recorded acknowledger and time are those of the latest call; repeating a call
  with the same acknowledger at the same clock reading changes nothing.
\<close>

theorem C7_read_idempotent_acknowledge_last_wins:
  "fst (mark_alert_read (fst (mark_alert_read db i)) i) = fst (mark_alert_read db i)
   \<and> fst (acknowledge_alert (fst (acknowledge_alert db i b1 t1)) i b2 t2)
       = fst (acknowledge_alert db i b2 t2)
   \<and> fst (acknowledge_alert (fst (acknowledge_alert db i b1 t1)) i b1 t1)
       = fst (acknowledge_alert db i b1 t1)
   \<and> map_option is_acknowledged
        (alerts (fst (acknowledge_alert (fst (acknowledge_alert db i b1 t1)) i b2 t2)) i)
       = map_option (\<lambda>a. True) (alerts db i)
   \<and> map_option acknowledged_by
        (alerts (fst (acknowledge_alert (fst (acknowledge_alert db i b1 t1)) i b2 t2)) i)
       = map_option (\<lambda>a. Some b2) (alerts db i)
   \<and> map_option acknowledged_at
        (alerts (fst (acknowledge_alert (fst (acknowledge_alert db i b1 t1)) i b2 t2)) i)
       = map_option (\<lambda>a. Some t2) (alerts db i)"
  by (simp add: mark_alert_read_twice acknowledge_alert_twice acknowledge_alert_row
      option.map_comp comp_def)

section \<open>News sub-score: the penalty counts each article once\<close>

lemma risk_penalty_loop_counts:
  "risk_penalty_loop evs p =
     p + 10 * real (length (filter in_high_risk_events evs))
       + 5 * real (length (filter (\<lambda>e. \<not> in_high_risk_events e \<and> risk_score e > 0.7) evs))"
  by (induction evs arbitrary: p) simp_all

lemma min_risk_penalty_loop: "min (risk_penalty_loop evs 0) 20 = news_penalty evs"
  by (simp add: risk_penalty_loop_counts news_penalty_def min.commute)

lemma calculate_news_score_closed_form:
  "calculate_news_score evs = spec_news_score news_penalty evs"
  by (simp add: calculate_news_score_def spec_news_score_def Let_def min_risk_penalty_loop)

lemma news_penalty_bounds: "0 \<le> news_penalty evs \<and> news_penalty evs \<le> 20"
  by (simp add: news_penalty_def)

text \<open>
  Claim C3 as stated fails. For the single article \<open>negative_default_news\<close>
  (event type default, sentiment -0.5, risk score 0.8) the code subtracts 10 and
  returns 25; the penalty of the claim, 10 for the event type and 5 for the risk
  score above 0.7, is 15 under either reading and gives 20.
\<close>

theorem C3_typed_article_not_charged_for_risk:
  "calculate_news_score [negative_default_news] = 25
   \<and> spec_news_score spec_news_penalty_per_type [negative_default_news] = 20
   \<and> spec_news_score spec_news_penalty_per_article [negative_default_news] = 20
   \<and> calculate_news_score [negative_default_news]
       \<noteq> spec_news_score spec_news_penalty_per_type [negative_default_news]
   \<and> calculate_news_score [negative_default_news]
       \<noteq> spec_news_score spec_news_penalty_per_article [negative_default_news]"
proof -
  have hr: "in_high_risk_events negative_default_news"
    by (simp add: in_high_risk_events_def negative_default_news_def)
  have code: "calculate_news_score [negative_default_news] = 25"
    by (simp add: calculate_news_score_def Let_def hr) (simp add: negative_default_news_def)
  have ty: "high_risk_types_present [negative_default_news] = [''default'']"
    by (simp add: high_risk_types_present_def negative_default_news_def)
  have s1: "spec_news_score spec_news_penalty_per_type [negative_default_news] = 20"
    by (simp add: spec_news_score_def spec_news_penalty_per_type_def ty)
      (simp add: negative_default_news_def)
  have s2: "spec_news_score spec_news_penalty_per_article [negative_default_news] = 20"
    by (simp add: spec_news_score_def spec_news_penalty_per_article_def hr)
      (simp add: negative_default_news_def)
  show ?thesis unfolding code s1 s2 by simp
qed

text \<open>
  Claim C3, amended. For every list of news signals the news sub-score is 50 plus
  the average sentiment times 30, minus a penalty capped at 20, clamped to the
  range from 0 to 100, where the penalty counts each article once: 10 points if
  its event type is default, legal or restructuring, and otherwise 5 points if
  its risk score is above 0.7. For the empty list the score is exactly 50.
\<close>

theorem C3_news_score:
  "calculate_news_score evs =
     (if evs = [] then 50
      else max 0 (min 100
             (50 + (sum_list (map sentiment_score evs) / real (length evs)) * 30
                 - min 20
                     (10 * real (length (filter in_high_risk_events evs))
                      + 5 * real (length (filter
                          (\<lambda>e. \<not> in_high_risk_events e \<and> risk_score e > 0.7) evs))))))
   \<and> 0 \<le> calculate_news_score evs
   \<and> calculate_news_score evs \<le> 100
   \<and> calculate_news_score [] = 50"
proof -
  have e: "calculate_news_score evs = spec_news_score news_penalty evs"
    by (rule calculate_news_score_closed_form)
  have b: "0 \<le> spec_news_score news_penalty evs" "spec_news_score news_penalty evs \<le> 100"
    by (simp_all add: spec_news_score_def)
  have z: "calculate_news_score [] = 50"
    by (simp add: calculate_news_score_def)
  from e have f: "calculate_news_score evs =
     (if evs = [] then 50
      else max 0 (min 100
             (50 + (sum_list (map sentiment_score evs) / real (length evs)) * 30
                 - min 20
                     (10 * real (length (filter in_high_risk_events evs))
                      + 5 * real (length (filter
                          (\<lambda>e. \<not> in_high_risk_events e \<and> risk_score e > 0.7) evs))))))"
    by (simp only: spec_news_score_def news_penalty_def)
  from f b z e show ?thesis by simp
qed

section \<open>Volatility\<close>

lemma np_std_formula:
  "np_std xs = sqrt (sum_list (map (\<lambda>x. (x - sum_list xs / real (length xs)) ^ 2) xs)
                    / real (length xs))"
  by (simp add: np_std_def np_mean_def)

lemma calculate_volatility_formula:
  "calculate_volatility db =
     (case company db of None \<Rightarrow> 0
      | Some c \<Rightarrow>
         let xs = map overall_score (take 10 (scores db)) in
         if length xs < 2 then 0
         else sqrt (sum_list (map (\<lambda>x. (x - sum_list xs / real (length xs)) ^ 2) xs)
                    / real (length xs)))"
  unfolding calculate_volatility_def Let_def np_std_formula
  by (simp only: length_map div_0)

lemma calculate_volatility_nonneg: "0 \<le> calculate_volatility db"
  by (auto simp add: calculate_volatility_def Let_def np_std_def np_mean_def
      intro!: divide_nonneg_nonneg sum_list_nonneg split: option.split)

lemma calculate_volatility_short:
  "calculate_volatility (db\<lparr>scores := []\<rparr>) = 0"
  "calculate_volatility (db\<lparr>scores := [s]\<rparr>) = 0"
  by (simp_all add: calculate_volatility_def split: option.split)

text \<open>
  Claim C5 as stated fails. For a history of the two overall scores 50 and 52 the
  code reports the volatility 1, the standard deviation with divisor \<open>n\<close>; the
  sample standard deviation of the two scores is the square root of 2.
\<close>

theorem C5_volatility_is_not_sample_std:
  "map overall_score (scores (company_with_history [50, 52])) = [50, 52]
   \<and> calculate_volatility (company_with_history [50, 52]) = 1
   \<and> spec_volatility [50, 52] = sqrt 2
   \<and> calculate_volatility (company_with_history [50, 52]) \<noteq> spec_volatility [50, 52]"
proof -
  have h: "map overall_score (scores (company_with_history [50, 52])) = [50, 52]"
    by (simp add: company_with_history_def stored_score_def)
  have v: "calculate_volatility (company_with_history [50, 52]) = 1"
    by (simp add: calculate_volatility_def company_with_history_def Let_def np_std_def
        np_mean_def stored_score_def)
  have s: "spec_volatility [50, 52] = sqrt 2"
    by (simp add: spec_volatility_def sample_std_def np_mean_def Let_def)
  show ?thesis unfolding v s using h by simp
qed

text \<open>
  Claim C5, amended. For every entity the reported volatility is the population
  standard deviation (the square root of the mean squared deviation from the
  mean, divisor \<open>n\<close>) of its 10 most recent overall scores; it is never
  negative, and it is 0 whenever fewer than 2 scores exist.
\<close>

theorem C5_volatility_population_std:
  "calculate_volatility db =
     (case company db of None \<Rightarrow> 0
      | Some c \<Rightarrow>
         let xs = map overall_score (take 10 (scores db)) in
         if length xs < 2 then 0
         else sqrt (sum_list (map (\<lambda>x. (x - sum_list xs / real (length xs)) ^ 2) xs)
                    / real (length xs)))
   \<and> 0 \<le> calculate_volatility db
   \<and> calculate_volatility (db\<lparr>scores := []\<rparr>) = 0
   \<and> calculate_volatility (db\<lparr>scores := [s]\<rparr>) = 0"
  using calculate_volatility_formula [of db] calculate_volatility_nonneg [of db]
    calculate_volatility_short(1) [of db] calculate_volatility_short(2) [of s db]
  by blast

section \<open>Score change and trend\<close>

lemma financial_scenario_A: "calculate_financial_score scenario_A = 100"
  by (simp add: calculate_financial_score_def scenario_A_def)

lemma market_scenario_A: "calculate_market_score scenario_A = 50"
  by (simp add: calculate_market_score_def scenario_A_def)

lemma news_score_no_news: "calculate_news_score [] = 50"
  by (simp add: calculate_news_score_def)

lemma determine_trend_direction_iff:
  "(determine_trend_direction c = ''increasing'' \<longleftrightarrow> c > 5)
   \<and> (determine_trend_direction c = ''decreasing'' \<longleftrightarrow> c < - 5)
   \<and> (determine_trend_direction c = ''stable'' \<longleftrightarrow> - 5 \<le> c \<and> c \<le> 5)"
  by (auto simp: determine_trend_direction_def)

lemma get_previous_score_skips_newest:
  "get_previous_score (db\<lparr>company := Some c, scores := newest # older\<rparr>) =
     (case older of [] \<Rightarrow> None | row # rest \<Rightarrow> Some (overall_score row))"
  by (simp add: get_previous_score_def)

lemma previous_company_with_history:
  "get_previous_score (company_with_history vs) =
     (case drop 1 vs of [] \<Rightarrow> None | p # r \<Rightarrow> Some p)"
  by (simp add: get_previous_score_def company_with_history_def drop_map stored_score_def
      split: list.split)

lemma overall_company_with_history:
  "map_option overall_score
     (snd (compute_score_background default_settings so (company_with_history vs) tk t1 t2))
   = Some 70"
  by (simp add: compute_score_background_def get_latest_financial_data_def
      get_latest_news_data_def company_with_history_def Let_def save_credit_score_def
      financial_scenario_A market_scenario_A news_score_no_news default_settings_def)

lemma change_company_with_history:
  "map_option score_change
     (snd (compute_score_background default_settings so (company_with_history vs) tk t1 t2))
   = Some (case get_previous_score (company_with_history vs) of
             None \<Rightarrow> 0 | Some p \<Rightarrow> if p \<noteq> 0 then 70 - p else 0)"
  by (simp add: compute_score_background_def get_latest_financial_data_def
      get_latest_news_data_def Let_def save_credit_score_def
      financial_scenario_A market_scenario_A news_score_no_news default_settings_def
      company_with_history_def [of vs, THEN arg_cong [of _ _ company]]
      company_with_history_def [of vs, THEN arg_cong [of _ _ latest_financial]]
      company_with_history_def [of vs, THEN arg_cong [of _ _ recent_news]]
      split: option.split)

lemma trend_company_with_history:
  "map_option trend_direction
     (snd (compute_score_background default_settings so (company_with_history vs) tk t1 t2))
   = Some (determine_trend_direction
            (case get_previous_score (company_with_history vs) of
               None \<Rightarrow> 0 | Some p \<Rightarrow> if p \<noteq> 0 then 70 - p else 0))"
  by (simp add: compute_score_background_def get_latest_financial_data_def
      get_latest_news_data_def Let_def save_credit_score_def
      financial_scenario_A market_scenario_A news_score_no_news default_settings_def
      company_with_history_def [of vs, THEN arg_cong [of _ _ company]]
      company_with_history_def [of vs, THEN arg_cong [of _ _ latest_financial]]
      company_with_history_def [of vs, THEN arg_cong [of _ _ recent_news]]
      split: option.split)

text \<open>
  Claim C6, at the failing input. The company has exactly one prior score, 60,
  and scenario A with no news gives the new overall score 70. The previous-score
  query skips the newest stored row, which is the only one, so the code records
  the score change 0 and the trend stable, where the claim has 70 - 60 = 10 and
  increasing.
\<close>

theorem C6_one_prior_score_gives_no_change:
  "map overall_score (scores (company_with_history [60])) = [60]
   \<and> get_previous_score (company_with_history [60]) = None
   \<and> map_option overall_score
        (snd (compute_score_background default_settings so (company_with_history [60]) tk t1 t2))
       = Some 70
   \<and> map_option score_change
        (snd (compute_score_background default_settings so (company_with_history [60]) tk t1 t2))
       = Some 0
   \<and> map_option trend_direction
        (snd (compute_score_background default_settings so (company_with_history [60]) tk t1 t2))
       = Some ''stable''"
proof -
  have h: "map overall_score (scores (company_with_history [60])) = [60]"
    by (simp add: company_with_history_def stored_score_def)
  have p: "get_previous_score (company_with_history [60]) = None"
    by (simp add: previous_company_with_history)
  show ?thesis
    using h p overall_company_with_history [of so "[60]" tk t1 t2]
    by (simp add: change_company_with_history trend_company_with_history
        determine_trend_direction_def)
qed

text \<open>
  Claim C10, at the failing input. The most recent prior score is 0.0 and the one
  before it is 50; the new overall score is 70. The previous-score query skips
  the newest stored row and returns 50, so the code records the score change 20
  and the trend increasing, where the claim has 0 and stable.
\<close>

theorem C10_zero_latest_score_is_skipped:
  "map overall_score (scores (company_with_history [0, 50])) = [0, 50]
   \<and> get_previous_score (company_with_history [0, 50]) = Some 50
   \<and> map_option overall_score
        (snd (compute_score_background default_settings so (company_with_history [0, 50]) tk t1 t2))
       = Some 70
   \<and> map_option score_change
        (snd (compute_score_background default_settings so (company_with_history [0, 50]) tk t1 t2))
       = Some 20
   \<and> map_option trend_direction
        (snd (compute_score_background default_settings so (company_with_history [0, 50]) tk t1 t2))
       = Some ''increasing''"
proof -
  have h: "map overall_score (scores (company_with_history [0, 50])) = [0, 50]"
    by (simp add: company_with_history_def stored_score_def)
  have p: "get_previous_score (company_with_history [0, 50]) = Some 50"
    by (simp add: previous_company_with_history)
  show ?thesis
    using h p overall_company_with_history [of so "[0, 50]" tk t1 t2]
    by (simp add: change_company_with_history trend_company_with_history
        determine_trend_direction_def)
qed

section \<open>Further facts about the two defects\<close>

text \<open>
  Scenario C of the specification: a signal of event type default is high-risk
  whatever its sentiment, and its alert is critical.
\<close>

lemma default_news_alert_critical:
  "is_high_risk_news default_news
   \<and> map_option severity (snd (create_news_alert db cid default_news)) = Some ''critical''"
  using create_news_alert_default [of default_news db cid]
  by (simp add: is_high_risk_news_iff default_news_def)

text \<open>
  The truthiness test on the previous score: when the score the query returns is
  0.0, no change is recorded, as when the query returns nothing.
\<close>

lemma zero_previous_score_counts_as_absent:
  "map_option score_change
     (snd (compute_score_background default_settings so (company_with_history [v, 0]) tk t1 t2))
   = Some 0
   \<and> map_option score_change
     (snd (compute_score_background default_settings so (company_with_history []) tk t1 t2))
   = Some 0"
  by (simp add: change_company_with_history previous_company_with_history)

section \<open>Recomputation: the clock and the set iteration order\<close>

lemma fst_add_factor: "fst (add_factor b k t acc) = fst acc @ (if b then [k] else [])"
  by (simp add: add_factor_def)

lemma snd_add_factor: "snd (add_factor b k t acc) = snd acc @ (if b then [t] else [])"
  by (simp add: add_factor_def)

lemma generate_explanation_same_order:
  assumes "so1 (map (\<lambda>e. the (event_type e)) (filter in_high_risk_events news))
     = so2 (map (\<lambda>e. the (event_type e)) (filter in_high_risk_events news))"
  shows "generate_explanation so1 tk fd news c = generate_explanation so2 tk fd news c"
  unfolding generate_explanation_def Let_def using assms by (simp only:)

lemma generate_explanation_risk_indicators:
  "snd (snd (generate_explanation so1 tk fd news c))
     = snd (snd (generate_explanation so2 tk fd news c))"
  by (simp add: generate_explanation_def Let_def snd_add_factor)

lemma compute_score_background_written:
  "snd (compute_score_background cfg so db tk t1 t2) =
     (case get_latest_financial_data db of
        None \<Rightarrow> None
      | Some fd \<Rightarrow>
          let news = get_latest_news_data db;
              overall = financial_weight cfg * calculate_financial_score fd
                        + market_weight cfg * calculate_market_score fd
                        + news_weight cfg * calculate_news_score news;
              change = (case get_previous_score db of
                          None \<Rightarrow> 0
                        | Some p \<Rightarrow> if p \<noteq> 0 then overall - p else 0);
              explanation_data = generate_explanation so tk fd news change
          in Some \<lparr>score_company_id = the (company db), overall_score = overall,
                    financial_score = calculate_financial_score fd,
                    market_score = calculate_market_score fd,
                    news_score = calculate_news_score news, score_change = change,
                    trend_direction = determine_trend_direction change,
                    volatility = calculate_volatility db,
                    explanation_summary = fst explanation_data,
                    key_factors = fst (snd explanation_data),
                    risk_indicators = snd (snd explanation_data),
                    feature_importance = calculate_feature_importance fd news,
                    model_version = ''1.0'', calculation_method = ''weighted_average'',
                    confidence_level = 0.85,
                    calculated_at = t1, valid_until = t2 + 24 * 3600\<rparr>)"
  by (cases "company db")
     (simp_all add: compute_score_background_def save_credit_score_def Let_def
        get_latest_financial_data_def split: option.split)

lemma company_with_news_inputs:
  "get_latest_financial_data company_with_news = Some scenario_A"
  "get_latest_news_data company_with_news = [default_news, legal_news]"
  by (simp_all add: get_latest_financial_data_def get_latest_news_data_def
      company_with_news_def)

lemma key_factors_two_events:
  "fst (snd (generate_explanation so tk scenario_A [default_news, legal_news] c)) =
     [High_risk_events_detected (str_join '', '' (so [''default'', ''legal'']))]"
  by (simp add: generate_explanation_def Let_def fst_add_factor truthy_and_def
      scenario_A_def default_news_def legal_news_def in_high_risk_events_def)

lemma key_factors_company_with_news:
  "map_option key_factors
     (snd (compute_score_background cfg so company_with_news tk t1 t2))
   = Some [High_risk_events_detected (str_join '', '' (so [''default'', ''legal'']))]"
  by (simp add: compute_score_background_written company_with_news_inputs Let_def
      key_factors_two_events)

lemma calculated_at_company_with_news:
  "map_option calculated_at
     (snd (compute_score_background cfg so company_with_news tk t1 t2)) = Some t1"
  by (simp add: compute_score_background_written company_with_news_inputs Let_def)

text \<open>
  Claim C8 as stated fails, in two ways. Two recomputations from the same
  settings, snapshot, news and history, one with the clock at 0 and one with the
  clock at 1000, write records whose \<open>calculated_at\<close> is 0 and 1000. And with
  the clock held at 0, two processes that iterate the set of the event types
  default and legal in the two possible orders write the key factor texts
  ``default, legal'' and ``legal, default''.
\<close>

theorem C8_runs_differ_in_timestamps_and_text:
  "map_option calculated_at
     (snd (compute_score_background default_settings iteration_order_A company_with_news
        ''ACME'' 0 0)) = Some 0
   \<and> map_option calculated_at
     (snd (compute_score_background default_settings iteration_order_A company_with_news
        ''ACME'' 1000 1000)) = Some 1000
   \<and> snd (compute_score_background default_settings iteration_order_A company_with_news
        ''ACME'' 0 0)
     \<noteq> snd (compute_score_background default_settings iteration_order_A company_with_news
        ''ACME'' 1000 1000)
   \<and> map_option key_factors
     (snd (compute_score_background default_settings iteration_order_A company_with_news
        ''ACME'' 0 0)) = Some [High_risk_events_detected ''default, legal'']
   \<and> map_option key_factors
     (snd (compute_score_background default_settings iteration_order_B company_with_news
        ''ACME'' 0 0)) = Some [High_risk_events_detected ''legal, default'']
   \<and> snd (compute_score_background default_settings iteration_order_A company_with_news
        ''ACME'' 0 0)
     \<noteq> snd (compute_score_background default_settings iteration_order_B company_with_news
        ''ACME'' 0 0)"
proof -
  let ?a0 = "snd (compute_score_background default_settings iteration_order_A
    company_with_news ''ACME'' 0 0)"
  let ?a1 = "snd (compute_score_background default_settings iteration_order_A
    company_with_news ''ACME'' 1000 1000)"
  let ?b0 = "snd (compute_score_background default_settings iteration_order_B
    company_with_news ''ACME'' 0 0)"
  have c0: "map_option calculated_at ?a0 = Some 0"
    by (rule calculated_at_company_with_news)
  have c1: "map_option calculated_at ?a1 = Some 1000"
    by (rule calculated_at_company_with_news)
  have ka: "map_option key_factors ?a0 = Some [High_risk_events_detected ''default, legal'']"
    by (simp add: key_factors_company_with_news iteration_order_A_def str_join_def)
  have kb: "map_option key_factors ?b0 = Some [High_risk_events_detected ''legal, default'']"
    by (simp add: key_factors_company_with_news iteration_order_B_def str_join_def)
  have n1: "?a0 \<noteq> ?a1"
  proof
    assume "?a0 = ?a1"
    then have "map_option calculated_at ?a0 = map_option calculated_at ?a1" by simp
    then show False unfolding c0 c1 by simp
  qed
  have n2: "?a0 \<noteq> ?b0"
  proof
    assume "?a0 = ?b0"
    then have "map_option key_factors ?a0 = map_option key_factors ?b0" by simp
    then show False unfolding ka kb by simp
  qed
  from c0 c1 n1 ka kb n2 show ?thesis by blast
qed

text \<open>
  Claim C8, amended. Two recomputations from identical settings, snapshot, news
  and history both write a score exactly when the entity has a financial
  snapshot. Each record carries the clock readings of its own run
  (\<open>calculated_at\<close> the reading, \<open>valid_until\<close> the reading plus 24 hours) and
  the sub-scores and overall score the scoring functions give. The two records
  have identical values in every field other than \<open>calculated_at\<close>,
  \<open>valid_until\<close>, \<open>key_factors\<close> and \<open>explanation_summary\<close>; and in
  \<open>key_factors\<close> and \<open>explanation_summary\<close> as well whenever the two runs
  iterate the set of the detected high-risk event types in the same order.
\<close>

theorem C8_recompute_equal_up_to_clock_and_set_order:
  "(let fd_opt = get_latest_financial_data db;
        news = get_latest_news_data db;
        types = map (\<lambda>e. the (event_type e)) (filter in_high_risk_events news);
        r1 = snd (compute_score_background cfg so1 db tk t1 t2);
        r2 = snd (compute_score_background cfg so2 db tk u1 u2)
    in (r1 = None \<longleftrightarrow> fd_opt = None)
     \<and> (r2 = None \<longleftrightarrow> fd_opt = None)
     \<and> map_option calculated_at r1 = map_option (\<lambda>fd. t1) fd_opt
     \<and> map_option valid_until r1 = map_option (\<lambda>fd. t2 + 24 * 3600) fd_opt
     \<and> map_option calculated_at r2 = map_option (\<lambda>fd. u1) fd_opt
     \<and> map_option valid_until r2 = map_option (\<lambda>fd. u2 + 24 * 3600) fd_opt
     \<and> map_option financial_score r1 = map_option calculate_financial_score fd_opt
     \<and> map_option market_score r1 = map_option calculate_market_score fd_opt
     \<and> map_option news_score r1 = map_option (\<lambda>fd. calculate_news_score news) fd_opt
     \<and> map_option overall_score r1 =
         map_option (\<lambda>fd. financial_weight cfg * calculate_financial_score fd
                          + market_weight cfg * calculate_market_score fd
                          + news_weight cfg * calculate_news_score news) fd_opt
     \<and> map_option (\<lambda>r. r\<lparr>calculated_at := 0, valid_until := 0,
                           explanation_summary := Remained_stable [], key_factors := []\<rparr>) r1
       = map_option (\<lambda>r. r\<lparr>calculated_at := 0, valid_until := 0,
                           explanation_summary := Remained_stable [], key_factors := []\<rparr>) r2
     \<and> (so1 types = so2 types \<longrightarrow>
          map_option (\<lambda>r. r\<lparr>calculated_at := 0, valid_until := 0\<rparr>) r1
          = map_option (\<lambda>r. r\<lparr>calculated_at := 0, valid_until := 0\<rparr>) r2))"
proof -
  have ri: "snd (snd (generate_explanation so1 tk fd news c))
      = snd (snd (generate_explanation so2 tk fd news c))" for fd news c
    by (rule generate_explanation_risk_indicators)
  have same: "so1 (map (\<lambda>e. the (event_type e))
          (filter in_high_risk_events (get_latest_news_data db)))
        = so2 (map (\<lambda>e. the (event_type e))
          (filter in_high_risk_events (get_latest_news_data db)))
      \<Longrightarrow> generate_explanation so1 tk fd (get_latest_news_data db) c
        = generate_explanation so2 tk fd (get_latest_news_data db) c" for fd c
    by (rule generate_explanation_same_order)
  show ?thesis
  proof (cases "get_latest_financial_data db")
    case None
    then show ?thesis by (simp add: compute_score_background_written Let_def)
  next
    case (Some fd)
    then show ?thesis
      by (simp add: compute_score_background_written Let_def ri same)
  qed
qed

text \<open>
  The amended claim at a concrete input: the company with the default article
  alone. The two iteration orders agree on the one detected type, so a run at
  clock reading 0 under one order and a run at clock reading 1000 under the other
  both write a record, and the records agree once the two timestamps are
  blanked.
\<close>

theorem C8_recompute_equal_up_to_clock_and_set_order_witness:
  "iteration_order_A
       (map (\<lambda>e. the (event_type e))
          (filter in_high_risk_events
             (get_latest_news_data (company_with_news\<lparr>recent_news := [default_news]\<rparr>))))
     = iteration_order_B
       (map (\<lambda>e. the (event_type e))
          (filter in_high_risk_events
             (get_latest_news_data (company_with_news\<lparr>recent_news := [default_news]\<rparr>))))
   \<and> snd (compute_score_background default_settings iteration_order_A
        (company_with_news\<lparr>recent_news := [default_news]\<rparr>) ''ACME'' 0 0) \<noteq> None
   \<and> map_option (\<lambda>r. r\<lparr>calculated_at := 0, valid_until := 0\<rparr>)
        (snd (compute_score_background default_settings iteration_order_A
           (company_with_news\<lparr>recent_news := [default_news]\<rparr>) ''ACME'' 0 0))
     = map_option (\<lambda>r. r\<lparr>calculated_at := 0, valid_until := 0\<rparr>)
        (snd (compute_score_background default_settings iteration_order_B
           (company_with_news\<lparr>recent_news := [default_news]\<rparr>) ''ACME'' 1000 1000))"
proof -
  let ?db = "company_with_news\<lparr>recent_news := [default_news]\<rparr>"
  have fd: "get_latest_financial_data ?db = Some scenario_A"
    by (simp add: get_latest_financial_data_def company_with_news_def)
  have news: "get_latest_news_data ?db = [default_news]"
    by (simp add: get_latest_news_data_def company_with_news_def)
  have hr: "in_high_risk_events default_news"
    by (simp add: in_high_risk_events_def default_news_def)
  have same: "iteration_order_A
       (map (\<lambda>e. the (event_type e)) (filter in_high_risk_events (get_latest_news_data ?db)))
     = iteration_order_B
       (map (\<lambda>e. the (event_type e)) (filter in_high_risk_events (get_latest_news_data ?db)))"
    by (simp add: news hr iteration_order_A_def iteration_order_B_def)
  from same C8_recompute_equal_up_to_clock_and_set_order
    [of ?db default_settings iteration_order_A "''ACME''" 0 0 iteration_order_B 1000 1000]
  show ?thesis
    by (simp add: Let_def fd)
qed

end
